theory Spec2Isabelle
  imports Complex_Main
begin

section \<open>Host values: strings and numbers\<close>

text \<open>
  The plugin \<^verbatim>\<open>conformanceApiPlugin.ts\<close> binds raw HTTP input to typed requests with the
  host functions \<^verbatim>\<open>parseInt\<close>, \<^verbatim>\<open>parseFloat\<close> and \<^verbatim>\<open>String.prototype.toLowerCase\<close>.
  A raw string is a \<^typ>\<open>string\<close>; a character stands for a code unit below 256.

  A value of the host type \<^verbatim>\<open>number\<close> is a double: \<open>NaN\<close>, an infinity, or \<open>Num r\<close> for
  the finite double whose value is the rational \<open>r\<close> (the sign of a zero is not kept).
\<close>

datatype number = NaN | PosInfinity | NegInfinity | Num rat

text \<open>
  The conversion of the mathematical value \<open>p / q\<close> (with \<open>0 < q\<close>) to a double, as the
  host does it at the end of \<^verbatim>\<open>parseInt\<close> and \<^verbatim>\<open>parseFloat\<close>: round to nearest with 53
  bits of significand, ties to the even significand, exponents from \<open>- 1074\<close>, and an
  infinity once the rounded value reaches \<open>2 ^ 1024\<close>. An integer of magnitude up to
  \<open>2 ^ 53\<close> is its own double.
\<close>

function bitLength :: "int \<Rightarrow> int" where
  "bitLength n = (if n \<le> 0 then 0 else 1 + bitLength (n div 2))"
  by pat_completeness auto
termination
  by (relation "measure nat") auto

declare bitLength.simps [simp del]

definition pow2 :: "int \<Rightarrow> rat" where
  "pow2 e = (if 0 \<le> e then 2 ^ nat e else 1 / 2 ^ nat (- e))"

text \<open>For positive \<open>p\<close> and \<open>q\<close>, the exponent \<open>k\<close> with \<open>2 ^ k \<le> p / q < 2 ^ (k + 1)\<close>.\<close>

definition floorLog2 :: "int \<Rightarrow> int \<Rightarrow> int" where
  "floorLog2 p q =
     (let k = bitLength p - bitLength q
      in if (if 0 \<le> k then q * 2 ^ nat k \<le> p else q \<le> p * 2 ^ nat (- k)) then k else k - 1)"

definition roundHalfEven :: "int \<Rightarrow> int \<Rightarrow> int" where
  "roundHalfEven num den =
     (let f = num div den; r = num mod den
      in if den < 2 * r \<or> (2 * r = den \<and> odd f) then f + 1 else f)"

text \<open>Significand and exponent of the double nearest to \<open>p / q\<close>, or \<open>None\<close> on overflow.\<close>

definition roundPositive :: "int \<Rightarrow> int \<Rightarrow> (int \<times> int) option" where
  "roundPositive p q =
     (let e = max (floorLog2 p q - 52) (- 1074);
          m = (if 0 \<le> e then roundHalfEven p (q * 2 ^ nat e)
               else roundHalfEven (p * 2 ^ nat (- e)) q)
      in if 0 \<le> e \<and> 2 ^ 1024 \<le> m * 2 ^ nat e then None else Some (m, e))"

definition toNumber :: "int \<Rightarrow> int \<Rightarrow> number" where
  "toNumber p q =
     (if q = 1 \<and> \<bar>p\<bar> \<le> 2 ^ 53 then Num (of_int p)
      else if p = 0 then Num 0
      else (case roundPositive \<bar>p\<bar> q of
              None \<Rightarrow> if p < 0 then NegInfinity else PosInfinity
            | Some (m, e) \<Rightarrow> Num (of_int (if p < 0 then - m else m) * pow2 e)))"

definition isWhiteSpace :: "char \<Rightarrow> bool" where
  "isWhiteSpace c = ((of_char c :: nat) \<in> set [9, 10, 11, 12, 13, 32, 160])"

definition trimStart :: "string \<Rightarrow> string" where
  "trimStart s = dropWhile isWhiteSpace s"

definition digitValue :: "char \<Rightarrow> nat option" where
  "digitValue c =
     (let n = (of_char c :: nat) in
      if 48 \<le> n \<and> n \<le> 57 then Some (n - 48)
      else if 97 \<le> n \<and> n \<le> 122 then Some (n - 87)
      else if 65 \<le> n \<and> n \<le> 90 then Some (n - 55)
      else None)"

definition radixDigit :: "nat \<Rightarrow> char \<Rightarrow> bool" where
  "radixDigit R c = (case digitValue c of Some d \<Rightarrow> d < R | None \<Rightarrow> False)"

definition mathInt :: "nat \<Rightarrow> string \<Rightarrow> int" where
  "mathInt R Z =
     foldl (\<lambda>a c. a * int R + (case digitValue c of Some d \<Rightarrow> int d | None \<Rightarrow> 0)) 0 Z"

text \<open>The sign and the rest of a trimmed string (steps 3 and 4 of \<^verbatim>\<open>parseInt\<close>).\<close>

definition splitSign :: "string \<Rightarrow> int \<times> string" where
  "splitSign S =
     (case S of
        [] \<Rightarrow> (1, [])
      | c # cs \<Rightarrow>
          if c = CHR ''-'' then (-1, cs)
          else if c = CHR ''+'' then (1, cs)
          else (1, S))"

text \<open>
  Steps 7 to 12: the longest prefix of radix-\<open>R\<close> digits, \<open>NaN\<close> when it is empty,
  otherwise the double for the signed integer it denotes.
\<close>

definition parseDigits :: "nat \<Rightarrow> int \<Rightarrow> string \<Rightarrow> number" where
  "parseDigits R sign S =
     (let Z = takeWhile (radixDigit R) S
      in if Z = [] then NaN else toNumber (sign * mathInt R Z) 1)"

definition hexPrefixed :: "string \<Rightarrow> bool" where
  "hexPrefixed S = (take 2 S = ''0x'' \<or> take 2 S = ''0X'')"

text \<open>
  \<^verbatim>\<open>parseInt(string)\<close> as the plugin calls it, with no radix argument: the radix is 10
  unless the string (after white space and sign) starts with \<^verbatim>\<open>0x\<close> or \<^verbatim>\<open>0X\<close>, where
  it is 16 and the prefix is removed.
\<close>

definition parseInt :: "string \<Rightarrow> number" where
  "parseInt inputString =
     (let (sign, S) = splitSign (trimStart inputString)
      in if hexPrefixed S then parseDigits 16 sign (drop 2 S)
         else parseDigits 10 sign S)"

definition isDecimalDigit :: "char \<Rightarrow> bool" where
  "isDecimalDigit c = radixDigit 10 c"

text \<open>The double for \<open>m * 10 ^ e\<close>.\<close>

definition scale10 :: "int \<Rightarrow> int \<Rightarrow> number" where
  "scale10 m e = (if 0 \<le> e then toNumber (m * 10 ^ nat e) 1 else toNumber m (10 ^ nat (- e)))"

text \<open>
  The exponent part of a decimal literal: taken only when digits follow the
  exponent indicator and its optional sign, otherwise the literal ends before it.
\<close>

definition exponentPart :: "string \<Rightarrow> int" where
  "exponentPart S =
     (case S of
        [] \<Rightarrow> 0
      | c # cs \<Rightarrow>
          if c = CHR ''e'' \<or> c = CHR ''E'' then
            (let (sign, ds) = splitSign cs; Z = takeWhile isDecimalDigit ds
             in if Z = [] then 0 else sign * mathInt 10 Z)
          else 0)"

text \<open>
  \<^verbatim>\<open>parseFloat(string)\<close>: the longest prefix of the trimmed string that is a
  \<^verbatim>\<open>StrDecimalLiteral\<close> (sign, then \<^verbatim>\<open>Infinity\<close> or digits with an optional fraction and
  exponent); \<open>NaN\<close> when there is none.
\<close>

definition parseFloat :: "string \<Rightarrow> number" where
  "parseFloat inputString =
     (let (sign, S) = splitSign (trimStart inputString) in
      if take 8 S = ''Infinity'' then (if sign < 0 then NegInfinity else PosInfinity)
      else
        (let intDigits = takeWhile isDecimalDigit S;
             rest = dropWhile isDecimalDigit S;
             hasPoint = (rest \<noteq> [] \<and> hd rest = CHR ''.'');
             fracDigits = (if hasPoint then takeWhile isDecimalDigit (tl rest) else []);
             rest' = (if hasPoint then dropWhile isDecimalDigit (tl rest) else rest)
         in if intDigits = [] \<and> fracDigits = [] then NaN
            else scale10 (sign * mathInt 10 (intDigits @ fracDigits))
                   (exponentPart rest' - int (length fracDigits))))"

definition toLowerCase_char :: "char \<Rightarrow> char" where
  "toLowerCase_char c =
     (let n = (of_char c :: nat) in
      if (65 \<le> n \<and> n \<le> 90) \<or> (192 \<le> n \<and> n \<le> 222 \<and> n \<noteq> 215)
      then char_of (n + 32) else c)"

definition toLowerCase :: "string \<Rightarrow> string" where
  "toLowerCase s = map toLowerCase_char s"

text \<open>\<^verbatim>\<open>parseBoolean(value: string | undefined)\<close>, lines 18 to 29.\<close>

definition parseBoolean :: "string option \<Rightarrow> bool option" where
  "parseBoolean val =
     (case val of
        Some s \<Rightarrow>
          (let lowerValue = toLowerCase s in
           if lowerValue = ''true'' then Some True
           else if lowerValue = ''false'' then Some False
           else None)
      | None \<Rightarrow> None)"

section \<open>The error table\<close>

text \<open>
  \<^verbatim>\<open>standardErrorCodes\<close> (lines 4 to 16) is an object literal, so reading a property of it
  finds the eleven own properties first and then the members every object inherits
  from \<^verbatim>\<open>Object.prototype\<close>. The helper \<open>standardErrorCodes_get\<close> is the property read
  \<^verbatim>\<open>standardErrorCodes[code]\<close>.
\<close>

definition standardErrorCodes :: "(string \<times> nat) list" where
  "standardErrorCodes =
     [(''NotModified'', 304),
      (''InvalidRequest'', 400),
      (''NotAuthenticated'', 401),
      (''NotAuthorized'', 403),
      (''NotFound'', 404),
      (''Conflict'', 409),
      (''RequestTooLarge'', 413),
      (''TooManyRequests'', 429),
      (''InternalError'', 500),
      (''ServiceUnavailable'', 503),
      (''NotAdmin'', 403)]"

definition objectPrototypeMembers :: "string list" where
  "objectPrototypeMembers =
     [''constructor'', ''__defineGetter__'', ''__defineSetter__'', ''hasOwnProperty'',
      ''__lookupGetter__'', ''__lookupSetter__'', ''isPrototypeOf'',
      ''propertyIsEnumerable'', ''toString'', ''valueOf'', ''__proto__'',
      ''toLocaleString'']"

datatype property = Undefined | NumberValue nat | InheritedMember string

definition standardErrorCodes_get :: "string \<Rightarrow> property" where
  "standardErrorCodes_get c =
     (case map_of standardErrorCodes c of
        Some n \<Rightarrow> NumberValue n
      | None \<Rightarrow> if c \<in> set objectPrototypeMembers then InheritedMember c else Undefined)"

section \<open>Typed results and the reply\<close>

text \<open>
  The plugin imports its types from \<^verbatim>\<open>conformanceApiTypes\<close>; the records below hold
  the fields the plugin reads. A widget and the payloads that are passed through
  untouched are type parameters.
\<close>

record service_error =
  err_code :: "string option"
  err_message :: "string option"

record 'v service_result =
  result_error :: "service_error option"
  result_value :: "'v option"

text \<open>
  What a handler does to \<^verbatim>\<open>reply\<close>: the argument of the last \<^verbatim>\<open>reply.status\<close> call (a
  status code, or a value that is not a number), the headers set, and the payloads
  handed to \<^verbatim>\<open>send\<close> in order. A handler ends by returning or by throwing.
\<close>

datatype status_arg = StatusCode nat | NotANumber string

datatype 'v payload = ErrorBody service_error | Body 'v | EmptyObject

record 'v reply =
  reply_status :: "status_arg option"
  reply_headers :: "(string \<times> string) list"
  reply_sent :: "'v payload list"

datatype completion = Returned | Thrown string

definition new_reply :: "'v reply" where
  "new_reply = \<lparr>reply_status = None, reply_headers = [], reply_sent = []\<rparr>"

definition status :: "status_arg \<Rightarrow> 'v reply \<Rightarrow> 'v reply" where
  "status c r = r\<lparr>reply_status := Some c\<rparr>"

definition header :: "string \<Rightarrow> string \<Rightarrow> 'v reply \<Rightarrow> 'v reply" where
  "header k v r = r\<lparr>reply_headers := reply_headers r @ [(k, v)]\<rparr>"

definition send :: "'v payload \<Rightarrow> 'v reply \<Rightarrow> 'v reply" where
  "send p r = r\<lparr>reply_sent := reply_sent r @ [p]\<rparr>"

definition must_have :: string where
  "must_have = ''Result must have an error or value.''"

text \<open>
  The error branch, written out identically in all nine handlers:
  \<^verbatim>\<open>const status = result.error.code && standardErrorCodes[result.error.code];\<close>
  \<^verbatim>\<open>reply.status(status || 500).send(result.error);\<close>
  A missing or empty code and the number 0 are falsy.
\<close>

definition error_status :: "service_error \<Rightarrow> status_arg" where
  "error_status e =
     (case err_code e of
        None \<Rightarrow> StatusCode 500
      | Some c \<Rightarrow>
          if c = [] then StatusCode 500
          else (case standardErrorCodes_get c of
                  Undefined \<Rightarrow> StatusCode 500
                | NumberValue n \<Rightarrow> if n = 0 then StatusCode 500 else StatusCode n
                | InheritedMember m \<Rightarrow> NotANumber m))"

definition send_error :: "service_error \<Rightarrow> 'v reply \<Rightarrow> 'v reply" where
  "send_error e r = send (ErrorBody e) (status (error_status e) r)"

section \<open>The raw request\<close>

text \<open>
  A query parameter given once is a string, one given several times is an array of
  strings; path segments and headers are strings.
\<close>

datatype query_value = QString string | QArray "string list"

record 'b request =
  req_query :: "string \<rightharpoonup> query_value"
  req_params :: "string \<rightharpoonup> string"
  req_headers :: "string \<rightharpoonup> string"
  req_body :: "'b"

text \<open>\<^verbatim>\<open>typeof query[name] === "string"\<close>: the string, when there is one.\<close>

definition query_string :: "'b request \<Rightarrow> string \<Rightarrow> string option" where
  "query_string req name =
     (case req_query req name of Some (QString s) \<Rightarrow> Some s | _ \<Rightarrow> None)"

section \<open>The handlers\<close>

text \<open>
  Each route of \<^verbatim>\<open>conformanceApiPlugin\<close> builds a typed request (\<open>_request\<close>), awaits one
  method of the injected service, and shapes the result (\<open>_reply\<close>). The service is a
  parameter of the handler.
\<close>

subsection \<open>\<^verbatim>\<open>GET /\<close>, lines 37 to 55\<close>

definition getApiInfo_reply :: "'i service_result \<Rightarrow> 'i reply \<times> completion" where
  "getApiInfo_reply result =
     (case result_error result of
        Some e \<Rightarrow> (send_error e new_reply, Returned)
      | None \<Rightarrow>
          (case result_value result of
             Some v \<Rightarrow> (send (Body v) new_reply, Returned)
           | None \<Rightarrow> (new_reply, Returned)))"

definition getApiInfo_handler ::
  "(unit \<Rightarrow> 'i service_result) \<Rightarrow> 'b request \<Rightarrow> 'i reply \<times> completion" where
  "getApiInfo_handler api req = getApiInfo_reply (api ())"

subsection \<open>\<^verbatim>\<open>GET /widgets\<close>, lines 57 to 84\<close>

record getWidgetsRequest =
  getWidgets_query :: "string option"

record 'w getWidgetsResponse =
  widgets :: "'w list option"

definition getWidgets_request :: "'b request \<Rightarrow> getWidgetsRequest" where
  "getWidgets_request req = \<lparr>getWidgets_query = query_string req ''q''\<rparr>"

definition getWidgets_reply ::
  "'w getWidgetsResponse service_result \<Rightarrow> 'w getWidgetsResponse reply \<times> completion" where
  "getWidgets_reply result =
     (case result_error result of
        Some e \<Rightarrow> (send_error e new_reply, Returned)
      | None \<Rightarrow>
          ((case result_value result of
              Some v \<Rightarrow> send (Body \<lparr>widgets = widgets v\<rparr>) (status (StatusCode 200) new_reply)
            | None \<Rightarrow> new_reply),
           Thrown must_have))"

definition getWidgets_handler ::
  "(getWidgetsRequest \<Rightarrow> 'w getWidgetsResponse service_result) \<Rightarrow> 'b request
     \<Rightarrow> 'w getWidgetsResponse reply \<times> completion" where
  "getWidgets_handler api req = getWidgets_reply (api (getWidgets_request req))"

subsection \<open>\<^verbatim>\<open>POST /widgets\<close>, lines 86 to 118\<close>

record 'w createWidgetRequest =
  createWidget_widget :: "'w option"

record 'w createWidgetResponse =
  created_url :: "string option"
  created_eTag :: "string option"
  created_widget :: "'w option"

definition createWidget_request :: "'w option request \<Rightarrow> 'w createWidgetRequest" where
  "createWidget_request req = \<lparr>createWidget_widget = req_body req\<rparr>"

definition createWidget_reply ::
  "'w createWidgetResponse service_result \<Rightarrow> 'w reply \<times> completion" where
  "createWidget_reply result =
     (case result_error result of
        Some e \<Rightarrow> (send_error e new_reply, Returned)
      | None \<Rightarrow>
          (case result_value result of
             Some v \<Rightarrow>
               (let r1 = (case created_url v of
                            Some u \<Rightarrow> header ''Location'' u new_reply
                          | None \<Rightarrow> new_reply);
                    r2 = (case created_eTag v of
                            Some t \<Rightarrow> header ''eTag'' t r1
                          | None \<Rightarrow> r1);
                    r3 = (case created_widget v of
                            Some w \<Rightarrow> send (Body w) (status (StatusCode 201) r2)
                          | None \<Rightarrow> r2)
                in (r3, Returned))
           | None \<Rightarrow> (new_reply, Thrown must_have)))"

definition createWidget_handler ::
  "('w createWidgetRequest \<Rightarrow> 'w createWidgetResponse service_result) \<Rightarrow> 'w option request
     \<Rightarrow> 'w reply \<times> completion" where
  "createWidget_handler api req = createWidget_reply (api (createWidget_request req))"

subsection \<open>\<^verbatim>\<open>GET /widgets/:id\<close>, lines 120 to 158\<close>

record getWidgetRequest =
  getWidget_id :: "number option"
  getWidget_ifNotETag :: "string option"

record 'w getWidgetResponse =
  got_widget :: "'w option"
  got_eTag :: "string option"
  got_notModified :: "bool option"

definition getWidget_request :: "'b request \<Rightarrow> getWidgetRequest" where
  "getWidget_request req =
     \<lparr>getWidget_id = map_option parseInt (req_params req ''id''),
      getWidget_ifNotETag = req_headers req ''if-none-match''\<rparr>"

definition getWidget_reply ::
  "'w getWidgetResponse service_result \<Rightarrow> 'w reply \<times> completion" where
  "getWidget_reply result =
     (case result_error result of
        Some e \<Rightarrow> (send_error e new_reply, Returned)
      | None \<Rightarrow>
          (case result_value result of
             Some v \<Rightarrow>
               (let r = (case got_eTag v of
                           Some t \<Rightarrow> header ''eTag'' t new_reply
                         | None \<Rightarrow> new_reply)
                in case got_widget v of
                     Some w \<Rightarrow> (send (Body w) (status (StatusCode 200) r), Returned)
                   | None \<Rightarrow>
                       if got_notModified v = Some True
                       then (status (StatusCode 304) r, Returned)
                       else (r, Thrown must_have))
           | None \<Rightarrow> (new_reply, Thrown must_have)))"

definition getWidget_handler ::
  "(getWidgetRequest \<Rightarrow> 'w getWidgetResponse service_result) \<Rightarrow> 'b request
     \<Rightarrow> 'w reply \<times> completion" where
  "getWidget_handler api req = getWidget_reply (api (getWidget_request req))"

subsection \<open>\<^verbatim>\<open>DELETE /widgets/:id\<close>, lines 161 to 198\<close>

record deleteWidgetRequest =
  deleteWidget_id :: "number option"
  deleteWidget_ifETag :: "string option"

record deleteWidgetResponse =
  notFound :: "bool option"
  conflict :: "bool option"

definition deleteWidget_request :: "'b request \<Rightarrow> deleteWidgetRequest" where
  "deleteWidget_request req =
     \<lparr>deleteWidget_id = map_option parseInt (req_params req ''id''),
      deleteWidget_ifETag = req_headers req ''if-match''\<rparr>"

definition deleteWidget_reply ::
  "deleteWidgetResponse service_result \<Rightarrow> unit reply \<times> completion" where
  "deleteWidget_reply result =
     (case result_error result of
        Some e \<Rightarrow> (send_error e new_reply, Returned)
      | None \<Rightarrow>
          (case result_value result of
             Some v \<Rightarrow>
               if notFound v = Some True then (status (StatusCode 404) new_reply, Returned)
               else if conflict v = Some True then (status (StatusCode 409) new_reply, Returned)
               else (send EmptyObject (status (StatusCode 204) new_reply), Returned)
           | None \<Rightarrow> (new_reply, Thrown must_have)))"

definition deleteWidget_handler ::
  "(deleteWidgetRequest \<Rightarrow> deleteWidgetResponse service_result) \<Rightarrow> 'b request
     \<Rightarrow> unit reply \<times> completion" where
  "deleteWidget_handler api req = deleteWidget_reply (api (deleteWidget_request req))"

subsection \<open>\<^verbatim>\<open>POST /widgets/get\<close>, lines 200 to 223\<close>

record getWidgetBatchRequest =
  getWidgetBatch_ids :: "number list option"

record 'r getWidgetBatchResponse =
  results :: "'r option"

definition getWidgetBatch_request :: "number list option request \<Rightarrow> getWidgetBatchRequest" where
  "getWidgetBatch_request req = \<lparr>getWidgetBatch_ids = req_body req\<rparr>"

definition getWidgetBatch_reply ::
  "'r getWidgetBatchResponse service_result \<Rightarrow> 'r reply \<times> completion" where
  "getWidgetBatch_reply result =
     (case result_error result of
        Some e \<Rightarrow> (send_error e new_reply, Returned)
      | None \<Rightarrow>
          (case result_value result of
             Some v \<Rightarrow>
               (case results v of
                  Some rs \<Rightarrow> (send (Body rs) (status (StatusCode 200) new_reply), Returned)
                | None \<Rightarrow> (new_reply, Thrown must_have))
           | None \<Rightarrow> (new_reply, Thrown must_have)))"

definition getWidgetBatch_handler ::
  "(getWidgetBatchRequest \<Rightarrow> 'r getWidgetBatchResponse service_result)
     \<Rightarrow> number list option request \<Rightarrow> 'r reply \<times> completion" where
  "getWidgetBatch_handler api req = getWidgetBatch_reply (api (getWidgetBatch_request req))"

subsection \<open>\<^verbatim>\<open>POST /mirrorFields\<close>, lines 225 to 248\<close>

record ('f, 'm) mirrorFieldsRequest =
  mirrorFields_field :: "'f option"
  mirrorFields_matrix :: "'m option"

definition mirrorFields_reply :: "'v service_result \<Rightarrow> 'v reply \<times> completion" where
  "mirrorFields_reply result =
     (case result_error result of
        Some e \<Rightarrow> (send_error e new_reply, Returned)
      | None \<Rightarrow>
          (case result_value result of
             Some v \<Rightarrow> (send (Body v) (status (StatusCode 200) new_reply), Returned)
           | None \<Rightarrow> (new_reply, Thrown must_have)))"

text \<open>Reading \<^verbatim>\<open>.field\<close> of a missing body throws before the service is called.\<close>

definition mirrorFields_handler ::
  "(('f, 'm) mirrorFieldsRequest \<Rightarrow> 'v service_result)
     \<Rightarrow> ('f, 'm) mirrorFieldsRequest option request \<Rightarrow> 'v reply \<times> completion" where
  "mirrorFields_handler api req =
     (case req_body req of
        None \<Rightarrow> (new_reply, Thrown ''TypeError'')
      | Some b \<Rightarrow>
          mirrorFields_reply
            (api \<lparr>mirrorFields_field = mirrorFields_field b,
                  mirrorFields_matrix = mirrorFields_matrix b\<rparr>))"

subsection \<open>\<^verbatim>\<open>GET /checkQuery\<close>, lines 250 to 296\<close>

record checkQueryRequest =
  checkQuery_string :: "string option"
  checkQuery_boolean :: "bool option"
  checkQuery_double :: "number option"
  checkQuery_int32 :: "number option"
  checkQuery_int64 :: "number option"
  checkQuery_decimal :: "number option"
  checkQuery_enum :: "string option"
  checkQuery_datetime :: "string option"

definition checkQuery_request :: "'b request \<Rightarrow> checkQueryRequest" where
  "checkQuery_request req =
     \<lparr>checkQuery_string = query_string req ''string'',
      checkQuery_boolean = (case query_string req ''boolean'' of
                             Some s \<Rightarrow> parseBoolean (Some s)
                           | None \<Rightarrow> None),
      checkQuery_double = map_option parseFloat (query_string req ''double''),
      checkQuery_int32 = map_option parseInt (query_string req ''int32''),
      checkQuery_int64 = map_option parseInt (query_string req ''int64''),
      checkQuery_decimal = map_option parseFloat (query_string req ''decimal''),
      checkQuery_enum = query_string req ''enum'',
      checkQuery_datetime = query_string req ''datetime''\<rparr>"

definition checkQuery_reply :: "'v service_result \<Rightarrow> 'v reply \<times> completion" where
  "checkQuery_reply result =
     (case result_error result of
        Some e \<Rightarrow> (send_error e new_reply, Returned)
      | None \<Rightarrow>
          ((case result_value result of
              Some v \<Rightarrow> send (Body v) (status (StatusCode 200) new_reply)
            | None \<Rightarrow> new_reply),
           Thrown must_have))"

definition checkQuery_handler ::
  "(checkQueryRequest \<Rightarrow> 'v service_result) \<Rightarrow> 'b request \<Rightarrow> 'v reply \<times> completion" where
  "checkQuery_handler api req = checkQuery_reply (api (checkQuery_request req))"

subsection \<open>\<^verbatim>\<open>GET /checkPath/...\<close>, lines 298 to 344\<close>

record checkPathRequest =
  checkPath_string :: "string option"
  checkPath_boolean :: "bool option"
  checkPath_double :: "number option"
  checkPath_int32 :: "number option"
  checkPath_int64 :: "number option"
  checkPath_decimal :: "number option"
  checkPath_enum :: "string option"
  checkPath_datetime :: "string option"

definition checkPath_request :: "'b request \<Rightarrow> checkPathRequest" where
  "checkPath_request req =
     \<lparr>checkPath_string = req_params req ''string'',
      checkPath_boolean = (case req_params req ''boolean'' of
                             Some s \<Rightarrow> parseBoolean (Some s)
                           | None \<Rightarrow> None),
      checkPath_double = map_option parseFloat (req_params req ''double''),
      checkPath_int32 = map_option parseInt (req_params req ''int32''),
      checkPath_int64 = map_option parseInt (req_params req ''int64''),
      checkPath_decimal = map_option parseFloat (req_params req ''decimal''),
      checkPath_enum = req_params req ''enum'',
      checkPath_datetime = req_params req ''datetime''\<rparr>"

definition checkPath_reply :: "'v service_result \<Rightarrow> 'v reply \<times> completion" where
  "checkPath_reply result =
     (case result_error result of
        Some e \<Rightarrow> (send_error e new_reply, Returned)
      | None \<Rightarrow>
          ((case result_value result of
              Some v \<Rightarrow> send (Body v) (status (StatusCode 200) new_reply)
            | None \<Rightarrow> new_reply),
           Thrown must_have))"

definition checkPath_handler ::
  "(checkPathRequest \<Rightarrow> 'v service_result) \<Rightarrow> 'b request \<Rightarrow> 'v reply \<times> completion" where
  "checkPath_handler api req = checkPath_reply (api (checkPath_request req))"

section \<open>The integer coercion in the specification's words\<close>

text \<open>
  Section 4.1 of the specification describes the int32 and int64 coercion as a base-10
  integer parse that keeps the integer prefix of a fractional string. The definition
  below follows those words and is written on its own: leading white space and one
  sign are skipped, then decimal digits are accumulated while they last, and a string
  with no digit there is not a number.
\<close>

fun decimalPrefix :: "int \<Rightarrow> string \<Rightarrow> int" where
  "decimalPrefix acc [] = acc"
| "decimalPrefix acc (c # cs) =
     (if 48 \<le> (of_char c :: nat) \<and> (of_char c :: nat) \<le> 57
      then decimalPrefix (10 * acc + int ((of_char c :: nat) - 48)) cs
      else acc)"

definition startsWithDigit :: "string \<Rightarrow> bool" where
  "startsWithDigit s =
     (case s of [] \<Rightarrow> False | c # cs \<Rightarrow> 48 \<le> (of_char c :: nat) \<and> (of_char c :: nat) \<le> 57)"

definition base10_prefix_parse :: "string \<Rightarrow> number" where
  "base10_prefix_parse inputString =
     (let t = trimStart inputString;
          negative = (t \<noteq> [] \<and> hd t = CHR ''-'');
          u = (if t \<noteq> [] \<and> (hd t = CHR ''-'' \<or> hd t = CHR ''+'') then tl t else t)
      in if startsWithDigit u
         then toNumber ((if negative then - 1 else 1) * decimalPrefix 0 u) 1
         else NaN)"

section \<open>The eight typed fields of the check endpoints\<close>

definition checkNames :: "string list" where
  "checkNames =
     [''string'', ''boolean'', ''double'', ''int32'', ''int64'', ''decimal'', ''enum'',
      ''datetime'']"

section \<open>Shared facts about the reply and the error branch\<close>

lemmas reply_defs = new_reply_def status_def header_def send_def send_error_def

text \<open>The eleven entries of the table, whatever the message.\<close>

lemma error_status_table:
  "error_status \<lparr>err_code = Some ''NotModified'', err_message = m\<rparr> = StatusCode 304"
  "error_status \<lparr>err_code = Some ''InvalidRequest'', err_message = m\<rparr> = StatusCode 400"
  "error_status \<lparr>err_code = Some ''NotAuthenticated'', err_message = m\<rparr> = StatusCode 401"
  "error_status \<lparr>err_code = Some ''NotAuthorized'', err_message = m\<rparr> = StatusCode 403"
  "error_status \<lparr>err_code = Some ''NotFound'', err_message = m\<rparr> = StatusCode 404"
  "error_status \<lparr>err_code = Some ''Conflict'', err_message = m\<rparr> = StatusCode 409"
  "error_status \<lparr>err_code = Some ''RequestTooLarge'', err_message = m\<rparr> = StatusCode 413"
  "error_status \<lparr>err_code = Some ''TooManyRequests'', err_message = m\<rparr> = StatusCode 429"
  "error_status \<lparr>err_code = Some ''InternalError'', err_message = m\<rparr> = StatusCode 500"
  "error_status \<lparr>err_code = Some ''ServiceUnavailable'', err_message = m\<rparr> = StatusCode 503"
  "error_status \<lparr>err_code = Some ''NotAdmin'', err_message = m\<rparr> = StatusCode 403"
  by (simp_all add: error_status_def standardErrorCodes_get_def standardErrorCodes_def)

lemma error_status_missing: "err_code e = None \<Longrightarrow> error_status e = StatusCode 500"
  by (simp add: error_status_def)

text \<open>
  A code that names neither an own property of the table nor a member inherited from
  \<^verbatim>\<open>Object.prototype\<close> gives 500.
\<close>

lemma error_status_unknown:
  assumes "err_code e = Some c"
    and "c \<notin> fst ` set standardErrorCodes"
    and "c \<notin> set objectPrototypeMembers"
  shows "error_status e = StatusCode 500"
proof -
  have "map_of standardErrorCodes c = None"
    using assms(2) by (simp add: map_of_eq_None_iff)
  then show ?thesis
    using assms(1,3) by (simp add: error_status_def standardErrorCodes_get_def)
qed

text \<open>A code that names an inherited member gives that member, which is not a number.\<close>

lemma error_status_inherited:
  assumes "err_code e = Some c" and "c \<in> set objectPrototypeMembers"
  shows "error_status e = NotANumber c"
proof -
  have "c \<notin> fst ` set standardErrorCodes"
    using assms(2) by (auto simp: standardErrorCodes_def objectPrototypeMembers_def)
  then have "map_of standardErrorCodes c = None"
    by (simp add: map_of_eq_None_iff)
  moreover have "c \<noteq> []" using assms(2) by (auto simp: objectPrototypeMembers_def)
  ultimately show ?thesis
    using assms by (simp add: error_status_def standardErrorCodes_get_def)
qed

text \<open>Every handler answers a populated error arm the same way and returns.\<close>

lemma error_branch:
  "result_error r1 = Some e \<Longrightarrow> getApiInfo_reply r1 = (send_error e new_reply, Returned)"
  "result_error r2 = Some e \<Longrightarrow> getWidgets_reply r2 = (send_error e new_reply, Returned)"
  "result_error r3 = Some e \<Longrightarrow> createWidget_reply r3 = (send_error e new_reply, Returned)"
  "result_error r4 = Some e \<Longrightarrow> getWidget_reply r4 = (send_error e new_reply, Returned)"
  "result_error r5 = Some e \<Longrightarrow> deleteWidget_reply r5 = (send_error e new_reply, Returned)"
  "result_error r6 = Some e \<Longrightarrow> getWidgetBatch_reply r6 = (send_error e new_reply, Returned)"
  "result_error r7 = Some e \<Longrightarrow> mirrorFields_reply r7 = (send_error e new_reply, Returned)"
  "result_error r8 = Some e \<Longrightarrow> checkQuery_reply r8 = (send_error e new_reply, Returned)"
  "result_error r9 = Some e \<Longrightarrow> checkPath_reply r9 = (send_error e new_reply, Returned)"
  by (simp_all add: getApiInfo_reply_def getWidgets_reply_def createWidget_reply_def
      getWidget_reply_def deleteWidget_reply_def getWidgetBatch_reply_def
      mirrorFields_reply_def checkQuery_reply_def checkPath_reply_def)

lemma send_error_fields:
  "reply_status (send_error e new_reply) = Some (error_status e)"
  "reply_sent (send_error e (new_reply :: 'v reply)) = [ErrorBody e :: 'v payload]"
  "reply_headers (send_error e new_reply) = []"
  by (simp_all add: reply_defs)

text \<open>With neither arm populated, every handler but that of \<^verbatim>\<open>GET /\<close> throws.\<close>

lemma neither_arm_throws:
  "result_error r2 = None \<Longrightarrow> result_value r2 = None \<Longrightarrow> getWidgets_reply r2 = (new_reply, Thrown must_have)"
  "result_error r3 = None \<Longrightarrow> result_value r3 = None \<Longrightarrow> createWidget_reply r3 = (new_reply, Thrown must_have)"
  "result_error r4 = None \<Longrightarrow> result_value r4 = None \<Longrightarrow> getWidget_reply r4 = (new_reply, Thrown must_have)"
  "result_error r5 = None \<Longrightarrow> result_value r5 = None \<Longrightarrow> deleteWidget_reply r5 = (new_reply, Thrown must_have)"
  "result_error r6 = None \<Longrightarrow> result_value r6 = None \<Longrightarrow> getWidgetBatch_reply r6 = (new_reply, Thrown must_have)"
  "result_error r7 = None \<Longrightarrow> result_value r7 = None \<Longrightarrow> mirrorFields_reply r7 = (new_reply, Thrown must_have)"
  "result_error r8 = None \<Longrightarrow> result_value r8 = None \<Longrightarrow> checkQuery_reply r8 = (new_reply, Thrown must_have)"
  "result_error r9 = None \<Longrightarrow> result_value r9 = None \<Longrightarrow> checkPath_reply r9 = (new_reply, Thrown must_have)"
  by (simp_all add: getWidgets_reply_def createWidget_reply_def
      getWidget_reply_def deleteWidget_reply_def getWidgetBatch_reply_def
      mirrorFields_reply_def checkQuery_reply_def checkPath_reply_def)

text \<open>
  \<^verbatim>\<open>POST /widgets\<close> with the value arm populated: the headers for the sub-fields that are
  set, then status 201 and the widget as the one body when the widget is set.
\<close>

lemma createWidget_reply_value:
  "createWidget_reply \<lparr>result_error = None, result_value = Some v\<rparr> =
     (\<lparr>reply_status = (case created_widget v of Some w \<Rightarrow> Some (StatusCode 201) | None \<Rightarrow> None),
       reply_headers =
         (case created_url v of Some u \<Rightarrow> [(''Location'', u)] | None \<Rightarrow> []) @
         (case created_eTag v of Some t \<Rightarrow> [(''eTag'', t)] | None \<Rightarrow> []),
       reply_sent = (case created_widget v of Some w \<Rightarrow> [Body w] | None \<Rightarrow> [])\<rparr>,
      Returned)"
  by (simp add: createWidget_reply_def reply_defs split: option.splits)

section \<open>Shared facts about the parsers\<close>

lemmas parse_defs = parseInt_def parseFloat_def splitSign_def trimStart_def
  isWhiteSpace_def hexPrefixed_def parseDigits_def radixDigit_def digitValue_def mathInt_def
  isDecimalDigit_def exponentPart_def scale10_def

text \<open>An integer of magnitude up to \<open>2 ^ 53\<close> is converted to itself.\<close>

lemma toNumber_exact: "\<bar>n\<bar> \<le> 2 ^ 53 \<Longrightarrow> toNumber n 1 = Num (of_int n)"
  by (simp add: toNumber_def)

text \<open>
  Above \<open>2 ^ 53\<close> the conversion rounds, from \<open>2 ^ 1024\<close> on it gives an infinity, and
  below the smallest double it gives zero.
\<close>

lemma toNumber_rounds: "toNumber 9007199254740993 1 = Num 9007199254740992"
  by code_simp

lemma toNumber_tenth: "toNumber 1 10 = Num (3602879701896397 / 36028797018963968)"
  by code_simp

lemma toNumber_overflows: "toNumber (10 ^ 309) 1 = PosInfinity"
  by code_simp

lemma toNumber_underflows: "toNumber 1 (10 ^ 324) = Num 0"
  by code_simp

lemma parseInt_rounds: "parseInt ''9007199254740993'' = Num 9007199254740992"
proof -
  have "parseInt ''9007199254740993'' = toNumber 9007199254740993 1"
    by (simp add: parse_defs)
  also have "\<dots> = Num 9007199254740992" by (rule toNumber_rounds)
  finally show ?thesis .
qed

lemma parseFloat_rounds: "parseFloat ''0.1'' = Num (3602879701896397 / 36028797018963968)"
proof -
  have "parseFloat ''0.1'' = toNumber 1 10"
    by (simp add: parse_defs)
  also have "\<dots> = Num (3602879701896397 / 36028797018963968)" by (rule toNumber_tenth)
  finally show ?thesis .
qed

lemma parseFloat_overflows: "parseFloat ''1e309'' = PosInfinity"
proof -
  have "parseFloat ''1e309'' = toNumber (10 ^ 309) 1"
    by (simp add: parse_defs)
  also have "\<dots> = PosInfinity" by (rule toNumber_overflows)
  finally show ?thesis .
qed

lemma parseFloat_underflows: "parseFloat ''1e-324'' = Num 0"
proof -
  have "parseFloat ''1e-324'' = toNumber 1 (10 ^ 324)"
    by (simp add: parse_defs)
  also have "\<dots> = Num 0" by (rule toNumber_underflows)
  finally show ?thesis .
qed

text \<open>The decimal digits are the characters \<^verbatim>\<open>0\<close> to \<^verbatim>\<open>9\<close>.\<close>

lemma isDecimalDigit_iff:
  "isDecimalDigit c = (48 \<le> (of_char c :: nat) \<and> (of_char c :: nat) \<le> 57)"
  by (auto simp: isDecimalDigit_def radixDigit_def digitValue_def Let_def)

lemma decimal_digit_chars:
  assumes "isDecimalDigit c"
  shows "\<not> isWhiteSpace c" "c \<noteq> CHR ''-''" "c \<noteq> CHR ''+''" "c \<noteq> CHR ''x''" "c \<noteq> CHR ''X''"
  using assms by (auto simp: isDecimalDigit_iff isWhiteSpace_def)

lemma decimal_digitValue:
  assumes "isDecimalDigit c"
  shows "digitValue c = Some ((of_char c :: nat) - 48)"
  using assms by (auto simp: isDecimalDigit_iff digitValue_def Let_def)

text \<open>The value of a digit string is not negative.\<close>

lemma foldl_digits_nonneg:
  "0 \<le> acc \<Longrightarrow>
   0 \<le> foldl (\<lambda>a c. a * int R + (case digitValue c of Some d \<Rightarrow> int d | None \<Rightarrow> 0)) acc Z"
  by (induction Z arbitrary: acc) (auto split: option.splits)

lemma mathInt_nonneg: "0 \<le> mathInt R Z"
  by (simp add: mathInt_def foldl_digits_nonneg)

text \<open>
  On a non-empty string of decimal digits \<open>parseInt\<close> gives the double for the decimal
  value: no other bound is applied.
\<close>

lemma parseInt_decimal_digits:
  assumes "ds \<noteq> []" and "list_all isDecimalDigit ds"
  shows "parseInt ds = toNumber (mathInt 10 ds) 1"
proof -
  obtain c cs where ds: "ds = c # cs" using assms(1) by (cases ds) auto
  have c: "isDecimalDigit c" using assms(2) ds by simp
  have trim: "trimStart ds = ds"
    using decimal_digit_chars(1) [OF c] by (simp add: trimStart_def ds)
  have sign: "splitSign ds = (1, ds)"
    using decimal_digit_chars(2,3) [OF c] by (simp add: splitSign_def ds)
  have nohex: "\<not> hexPrefixed ds"
  proof (cases cs)
    case Nil
    then show ?thesis by (simp add: hexPrefixed_def ds)
  next
    case (Cons d cs')
    then have "isDecimalDigit d" using assms(2) ds by simp
    then show ?thesis
      using decimal_digit_chars(4,5) Cons by (auto simp: hexPrefixed_def ds)
  qed
  have all: "takeWhile (radixDigit 10) ds = ds"
    using assms(2) by (simp add: takeWhile_eq_all_conv list_all_iff isDecimalDigit_def)
  show ?thesis
    using assms(1) by (simp add: parseInt_def trim sign nohex parseDigits_def all)
qed

text \<open>After \<^verbatim>\<open>0x\<close> the digits are read in base 16.\<close>

lemma parseInt_hex_digits:
  assumes "hs \<noteq> []" and "list_all (radixDigit 16) hs"
  shows "parseInt (''0x'' @ hs) = toNumber (mathInt 16 hs) 1"
proof -
  have all: "takeWhile (radixDigit 16) hs = hs"
    using assms(2) by (simp add: takeWhile_eq_all_conv list_all_iff)
  show ?thesis
    using assms(1)
    by (simp add: parseInt_def trimStart_def isWhiteSpace_def splitSign_def hexPrefixed_def
        parseDigits_def all)
qed

text \<open>The digit accumulation of the specification's parse, as a fold over the digit prefix.\<close>

lemma decimalPrefix_takeWhile:
  "decimalPrefix acc S =
     foldl (\<lambda>a c. a * 10 + (case digitValue c of Some d \<Rightarrow> int d | None \<Rightarrow> 0)) acc
       (takeWhile (radixDigit 10) S)"
proof (induction S arbitrary: acc)
  case Nil
  then show ?case by simp
next
  case (Cons c cs)
  show ?case
  proof (cases "isDecimalDigit c")
    case True
    then have r: "radixDigit 10 c" by (simp add: isDecimalDigit_def)
    from True have n: "48 \<le> (of_char c :: nat) \<and> (of_char c :: nat) \<le> 57"
      by (simp add: isDecimalDigit_iff)
    show ?thesis
      using Cons.IH r n decimal_digitValue [OF True] by (simp add: mult.commute)
  next
    case False
    then have r: "\<not> radixDigit 10 c" by (simp add: isDecimalDigit_def)
    from False have n: "(48 \<le> (of_char c :: nat) \<and> (of_char c :: nat) \<le> 57) = False"
      by (simp add: isDecimalDigit_iff)
    show ?thesis using r by (simp add: n)
  qed
qed

lemma startsWithDigit_takeWhile: "startsWithDigit S = (takeWhile (radixDigit 10) S \<noteq> [])"
proof (cases S)
  case Nil
  then show ?thesis by (simp add: startsWithDigit_def)
next
  case (Cons c cs)
  have "radixDigit 10 c = (48 \<le> (of_char c :: nat) \<and> (of_char c :: nat) \<le> 57)"
    using isDecimalDigit_iff [of c] by (simp add: isDecimalDigit_def)
  then show ?thesis using Cons by (simp add: startsWithDigit_def)
qed

text \<open>Without the hexadecimal prefix \<open>parseInt\<close> is the base-10 prefix parse.\<close>

lemma parseInt_without_hex_prefix:
  assumes "\<not> hexPrefixed (snd (splitSign (trimStart s)))"
  shows "parseInt s = base10_prefix_parse s"
proof (cases "trimStart s")
  case Nil
  then show ?thesis
    by (simp add: parseInt_def base10_prefix_parse_def splitSign_def hexPrefixed_def
        parseDigits_def startsWithDigit_def)
next
  case (Cons c cs)
  consider (minus) "c = CHR ''-''" | (plus) "c = CHR ''+''" | (other) "c \<noteq> CHR ''-''" "c \<noteq> CHR ''+''"
    by blast
  then show ?thesis
  proof cases
    case minus
    then have nh: "\<not> hexPrefixed cs" using assms Cons by (simp add: splitSign_def)
    show ?thesis
      using minus nh Cons
      by (simp add: parseInt_def base10_prefix_parse_def splitSign_def parseDigits_def
          startsWithDigit_takeWhile decimalPrefix_takeWhile mathInt_def Let_def)
  next
    case plus
    then have nh: "\<not> hexPrefixed cs" using assms Cons by (simp add: splitSign_def)
    show ?thesis
      using plus nh Cons
      by (simp add: parseInt_def base10_prefix_parse_def splitSign_def parseDigits_def
          startsWithDigit_takeWhile decimalPrefix_takeWhile mathInt_def Let_def)
  next
    case other
    then have nh: "\<not> hexPrefixed (c # cs)" using assms Cons by (simp add: splitSign_def)
    show ?thesis
      using other nh Cons
      by (simp add: parseInt_def base10_prefix_parse_def splitSign_def parseDigits_def
          startsWithDigit_takeWhile decimalPrefix_takeWhile mathInt_def Let_def)
  qed
qed

section \<open>The claims\<close>

text \<open>
  C1. Claimed: in every endpoint a populated error arm gives the status of the fixed
  table for the error's code, 500 for a code outside the table or a missing code, and
  the error object as body. The lemmas \<open>error_status_table\<close>, \<open>error_status_missing\<close>,
  \<open>error_status_unknown\<close>, \<open>error_branch\<close> and \<open>send_error_fields\<close> show this for the
  table's codes, for a missing code and for every code that names no member of
  \<^verbatim>\<open>Object.prototype\<close>. For the code \<^verbatim>\<open>constructor\<close>, which is not in the table, the
  property read \<^verbatim>\<open>standardErrorCodes[code]\<close> finds the inherited member, a truthy value,
  and the handler passes it to \<^verbatim>\<open>reply.status\<close> in place of 500.
\<close>

theorem C1_inherited_member_as_status:
  "reply_status (fst (getApiInfo_reply
      \<lparr>result_error = Some \<lparr>err_code = Some ''constructor'', err_message = None\<rparr>,
       result_value = (None :: unit option)\<rparr>)) = Some (NotANumber ''constructor'')"
  by (simp add: error_branch send_error_fields error_status_inherited objectPrototypeMembers_def)

text \<open>
  C2. Claimed: in every endpoint a result with neither arm populated raises the fatal
  error and never completes silently. The handler of \<^verbatim>\<open>GET /\<close> has no \<^verbatim>\<open>throw\<close>: with
  neither arm populated it touches the reply not at all and returns. The other eight
  handlers throw (\<open>neither_arm_throws\<close>).
\<close>

theorem C2_getApiInfo_completes_silently:
  "getApiInfo_reply \<lparr>result_error = None, result_value = (None :: unit option)\<rparr> =
     (\<lparr>reply_status = None, reply_headers = [], reply_sent = []\<rparr>, Returned)"
  by (simp add: getApiInfo_reply_def new_reply_def)

text \<open>
  C3. Claimed: a populated value arm always ends in one response with a status set, and
  \<^verbatim>\<open>POST /widgets\<close> sets a status whether or not the widget sub-field is set. With the
  widget sub-field set the handler does answer 201 with the widget
  (\<open>createWidget_reply_value\<close>). Without it the handler sets the headers and returns:
  \<^verbatim>\<open>reply.status\<close> is called only inside \<^verbatim>\<open>if (result.value.widget)\<close>, so no status is set
  and nothing is sent. Evaluated for a value with \<open>url\<close> and \<open>eTag\<close> and no widget:
\<close>

theorem C3_createWidget_returns_without_status:
  "createWidget_reply
     \<lparr>result_error = None,
      result_value = Some \<lparr>created_url = Some ''/widgets/1'', created_eTag = Some ''v1'',
                            created_widget = (None :: string option)\<rparr>\<rparr> =
   (\<lparr>reply_status = None,
     reply_headers = [(''Location'', ''/widgets/1''), (''eTag'', ''v1'')],
     reply_sent = []\<rparr>, Returned)"
  by (simp add: createWidget_reply_def reply_defs)

text \<open>
  C4. Claimed: a path segment that fails to parse as a number leaves the typed field
  unset. The binders assign the result of \<^verbatim>\<open>parseInt\<close> or \<^verbatim>\<open>parseFloat\<close> as it is, and
  for a string with no numeric prefix that result is \<open>NaN\<close>: for \<^verbatim>\<open>GET /widgets/abc\<close> the
  field \<^verbatim>\<open>id\<close> is set, to \<open>NaN\<close>.
\<close>

theorem C4_unparsed_id_counterexample:
  "parseInt ''abc'' = NaN \<and>
   getWidget_id (getWidget_request
     \<lparr>req_query = Map.empty, req_params = [''id'' \<mapsto> ''abc''], req_headers = Map.empty,
      req_body = ()\<rparr>) = Some NaN"
  by (simp add: getWidget_request_def parse_defs)

text \<open>
  C4, as amended. For the \<^verbatim>\<open>:id\<close> segment of \<^verbatim>\<open>GET /widgets/:id\<close> and
  \<^verbatim>\<open>DELETE /widgets/:id\<close> and the four numeric segments of \<^verbatim>\<open>GET /checkPath\<close>, a segment
  that fails to parse sets the typed field to \<open>NaN\<close>; the request is not rejected, and the
  service is called with the request that holds \<open>NaN\<close>.
\<close>

theorem C4_unparsed_segment_is_NaN:
  "(req_params req ''id'' = Some s \<and> parseInt s = NaN \<longrightarrow>
      getWidget_id (getWidget_request req) = Some NaN \<and>
      deleteWidget_id (deleteWidget_request req) = Some NaN \<and>
      getWidget_handler api1 req =
        getWidget_reply (api1 \<lparr>getWidget_id = Some NaN,
                                 getWidget_ifNotETag = req_headers req ''if-none-match''\<rparr>) \<and>
      deleteWidget_handler api2 req =
        deleteWidget_reply (api2 \<lparr>deleteWidget_id = Some NaN,
                                    deleteWidget_ifETag = req_headers req ''if-match''\<rparr>))
   \<and> (req_params req ''int32'' = Some s \<and> parseInt s = NaN \<longrightarrow>
        checkPath_int32 (checkPath_request req) = Some NaN)
   \<and> (req_params req ''int64'' = Some s \<and> parseInt s = NaN \<longrightarrow>
        checkPath_int64 (checkPath_request req) = Some NaN)
   \<and> (req_params req ''double'' = Some s \<and> parseFloat s = NaN \<longrightarrow>
        checkPath_double (checkPath_request req) = Some NaN)
   \<and> (req_params req ''decimal'' = Some s \<and> parseFloat s = NaN \<longrightarrow>
        checkPath_decimal (checkPath_request req) = Some NaN)"
  by (simp add: getWidget_request_def deleteWidget_request_def checkPath_request_def
      getWidget_handler_def deleteWidget_handler_def)

text \<open>The amended C4 at the segment \<^verbatim>\<open>abc\<close>, which neither parser accepts.\<close>

theorem C4_unparsed_segment_is_NaN_witness:
  "parseInt ''abc'' = NaN \<and> parseFloat ''abc'' = NaN \<and>
   (let req = \<lparr>req_query = Map.empty,
                req_params = [''id'' \<mapsto> ''abc'', ''int32'' \<mapsto> ''abc'', ''int64'' \<mapsto> ''abc'',
                              ''double'' \<mapsto> ''abc'', ''decimal'' \<mapsto> ''abc''],
                req_headers = Map.empty, req_body = ()\<rparr>
    in getWidget_id (getWidget_request req) = Some NaN \<and>
       deleteWidget_id (deleteWidget_request req) = Some NaN \<and>
       checkPath_int32 (checkPath_request req) = Some NaN \<and>
       checkPath_int64 (checkPath_request req) = Some NaN \<and>
       checkPath_double (checkPath_request req) = Some NaN \<and>
       checkPath_decimal (checkPath_request req) = Some NaN)"
proof -
  have i: "parseInt ''abc'' = NaN" by (simp add: parse_defs)
  have f: "parseFloat ''abc'' = NaN" by (simp add: parse_defs)
  show ?thesis
    using i f
      C4_unparsed_segment_is_NaN [of
        "\<lparr>req_query = Map.empty,
          req_params = [''id'' \<mapsto> ''abc'', ''int32'' \<mapsto> ''abc'', ''int64'' \<mapsto> ''abc'',
                        ''double'' \<mapsto> ''abc'', ''decimal'' \<mapsto> ''abc''],
          req_headers = Map.empty, req_body = ()\<rparr>" "''abc''"
        "\<lambda>r. \<lparr>result_error = None, result_value = (None :: unit getWidgetResponse option)\<rparr>"
        "\<lambda>r. \<lparr>result_error = None, result_value = None\<rparr>"]
    by (simp add: Let_def)
qed

text \<open>
  C5. Claimed: for \<^verbatim>\<open>GET /widgets\<close>, \<^verbatim>\<open>GET /checkQuery\<close> and \<^verbatim>\<open>GET /checkPath\<close> a populated
  value arm gives a 200 response with the body and no fatal error. The three handlers
  send the 200 response and then, having no \<^verbatim>\<open>return\<close> after the send, run into the
  \<^verbatim>\<open>throw\<close> that ends the handler. Evaluated for \<^verbatim>\<open>GET /widgets\<close> with an empty widget list,
  and for the two check endpoints with a value \<^verbatim>\<open>echo\<close>:
\<close>

theorem C5_getWidgets_throws_after_send:
  "getWidgets_reply
     \<lparr>result_error = None, result_value = Some \<lparr>widgets = Some ([] :: string list)\<rparr>\<rparr> =
   (\<lparr>reply_status = Some (StatusCode 200), reply_headers = [],
     reply_sent = [Body \<lparr>widgets = Some []\<rparr>]\<rparr>,
    Thrown ''Result must have an error or value.'')
   \<and> checkQuery_reply \<lparr>result_error = None, result_value = Some ''echo''\<rparr> =
   (\<lparr>reply_status = Some (StatusCode 200), reply_headers = [], reply_sent = [Body ''echo'']\<rparr>,
    Thrown ''Result must have an error or value.'')
   \<and> checkPath_reply \<lparr>result_error = None, result_value = Some ''echo''\<rparr> =
   (\<lparr>reply_status = Some (StatusCode 200), reply_headers = [], reply_sent = [Body ''echo'']\<rparr>,
    Thrown ''Result must have an error or value.'')"
  by (simp add: getWidgets_reply_def checkQuery_reply_def checkPath_reply_def reply_defs
      must_have_def)

text \<open>
  C6. For \<^verbatim>\<open>GET /widgets/:id\<close> with the value arm populated: the \<^verbatim>\<open>eTag\<close> header is set
  when \<open>eTag\<close> is set; then a set \<open>widget\<close> gives 200 with the widget as body; otherwise
  a true \<open>notModified\<close> gives 304 with no body (and with neither, the handler throws).
  The binder hands the \<^verbatim>\<open>If-None-Match\<close> header to the service as \<open>ifNotETag\<close>, so a
  service that answers a matching tag with \<open>notModified\<close> and no widget yields 304 with
  no body.
\<close>

theorem C6_getWidget_priority:
  "getWidget_reply \<lparr>result_error = None, result_value = Some v\<rparr> =
     (case got_widget v of
        Some w \<Rightarrow>
          (\<lparr>reply_status = Some (StatusCode 200),
            reply_headers = (case got_eTag v of Some t \<Rightarrow> [(''eTag'', t)] | None \<Rightarrow> []),
            reply_sent = [Body w]\<rparr>, Returned)
      | None \<Rightarrow>
          if got_notModified v = Some True
          then (\<lparr>reply_status = Some (StatusCode 304),
                 reply_headers = (case got_eTag v of Some t \<Rightarrow> [(''eTag'', t)] | None \<Rightarrow> []),
                 reply_sent = []\<rparr>, Returned)
          else (\<lparr>reply_status = None,
                 reply_headers = (case got_eTag v of Some t \<Rightarrow> [(''eTag'', t)] | None \<Rightarrow> []),
                 reply_sent = []\<rparr>, Thrown must_have))
   \<and> getWidget_ifNotETag (getWidget_request req) = req_headers req ''if-none-match''
   \<and> (api (getWidget_request req) = \<lparr>result_error = None, result_value = Some v\<rparr> \<and>
        got_widget v = None \<and> got_notModified v = Some True \<longrightarrow>
        getWidget_handler api req =
          (\<lparr>reply_status = Some (StatusCode 304),
            reply_headers = (case got_eTag v of Some t \<Rightarrow> [(''eTag'', t)] | None \<Rightarrow> []),
            reply_sent = []\<rparr>, Returned))"
  by (simp add: getWidget_reply_def getWidget_request_def getWidget_handler_def reply_defs
      split: option.splits)

text \<open>
  C6 at a service that knows the tag \<^verbatim>\<open>v7\<close>, called with \<^verbatim>\<open>If-None-Match: v7\<close>.
\<close>

theorem C6_getWidget_priority_witness:
  "getWidget_handler
     (\<lambda>r. if getWidget_ifNotETag r = Some ''v7''
          then \<lparr>result_error = None,
                result_value = Some \<lparr>got_widget = (None :: string option),
                                      got_eTag = Some ''v7'', got_notModified = Some True\<rparr>\<rparr>
          else \<lparr>result_error = None,
                result_value = Some \<lparr>got_widget = Some ''widget'',
                                      got_eTag = Some ''v7'', got_notModified = None\<rparr>\<rparr>)
     \<lparr>req_query = Map.empty, req_params = [''id'' \<mapsto> ''1''],
      req_headers = [''if-none-match'' \<mapsto> ''v7''], req_body = ()\<rparr> =
   (\<lparr>reply_status = Some (StatusCode 304), reply_headers = [(''eTag'', ''v7'')],
     reply_sent = []\<rparr>, Returned)"
proof -
  let ?api = "\<lambda>r. if getWidget_ifNotETag r = Some ''v7''
          then \<lparr>result_error = None,
                result_value = Some \<lparr>got_widget = (None :: string option),
                                      got_eTag = Some ''v7'', got_notModified = Some True\<rparr>\<rparr>
          else \<lparr>result_error = None,
                result_value = Some \<lparr>got_widget = Some ''widget'',
                                      got_eTag = Some ''v7'', got_notModified = None\<rparr>\<rparr>"
  let ?req = "\<lparr>req_query = Map.empty, req_params = [''id'' \<mapsto> ''1''],
      req_headers = [''if-none-match'' \<mapsto> ''v7''], req_body = ()\<rparr>"
  let ?v = "\<lparr>got_widget = (None :: string option),
             got_eTag = Some ''v7'', got_notModified = Some True\<rparr>"
  have h: "?api (getWidget_request ?req) = \<lparr>result_error = None, result_value = Some ?v\<rparr>"
    by (simp add: getWidget_request_def)
  show ?thesis
    using h C6_getWidget_priority [of ?v ?req ?api] by simp
qed

text \<open>
  C7. For \<^verbatim>\<open>DELETE /widgets/:id\<close> with the value arm populated: \<open>notFound\<close> is looked at
  first and gives 404; otherwise \<open>conflict\<close> gives 409; otherwise the answer is 204 with
  the empty object as body. So the status is 409 exactly when \<open>conflict\<close> is true and
  \<open>notFound\<close> is not.
\<close>

theorem C7_deleteWidget_priority:
  "deleteWidget_reply \<lparr>result_error = None, result_value = Some v\<rparr> =
     (if notFound v = Some True
      then (\<lparr>reply_status = Some (StatusCode 404), reply_headers = [], reply_sent = []\<rparr>, Returned)
      else if conflict v = Some True
      then (\<lparr>reply_status = Some (StatusCode 409), reply_headers = [], reply_sent = []\<rparr>, Returned)
      else (\<lparr>reply_status = Some (StatusCode 204), reply_headers = [],
             reply_sent = [EmptyObject]\<rparr>, Returned))
   \<and> (reply_status (fst (deleteWidget_reply \<lparr>result_error = None, result_value = Some v\<rparr>))
        = Some (StatusCode 409)) = (notFound v \<noteq> Some True \<and> conflict v = Some True)"
  by (simp add: deleteWidget_reply_def reply_defs)

text \<open>
  C8. Claimed: a query-bound field is set only when its parameter is present and
  non-empty, and an empty parameter leaves it unset. The binders test
  \<^verbatim>\<open>typeof query[name] === "string"\<close>, which the empty string passes: for
  \<^verbatim>\<open>GET /widgets?q=\<close> the field \<^verbatim>\<open>query\<close> is set, to the empty string.
\<close>

theorem C8_empty_query_parameter_counterexample:
  "getWidgets_query (getWidgets_request
     \<lparr>req_query = [''q'' \<mapsto> QString []], req_params = Map.empty, req_headers = Map.empty,
      req_body = ()\<rparr>) = Some []"
  by (simp add: getWidgets_request_def query_string_def)

text \<open>
  C8, as amended. For \<^verbatim>\<open>q\<close> of \<^verbatim>\<open>GET /widgets\<close> and the eight parameters of
  \<^verbatim>\<open>GET /checkQuery\<close>: a parameter present as a string, the empty string included, is
  coerced and assigned to the field (the boolean field stays unset when the string is
  neither \<^verbatim>\<open>true\<close> nor \<^verbatim>\<open>false\<close>); an absent parameter leaves the field unset.
\<close>

theorem C8_query_binding:
  "(req_query req ''q'' = Some (QString s) \<longrightarrow>
      getWidgets_query (getWidgets_request req) = Some s)
   \<and> (req_query req ''string'' = Some (QString s) \<longrightarrow>
        checkQuery_string (checkQuery_request req) = Some s)
   \<and> (req_query req ''boolean'' = Some (QString s) \<longrightarrow>
        checkQuery_boolean (checkQuery_request req) = parseBoolean (Some s))
   \<and> (req_query req ''double'' = Some (QString s) \<longrightarrow>
        checkQuery_double (checkQuery_request req) = Some (parseFloat s))
   \<and> (req_query req ''int32'' = Some (QString s) \<longrightarrow>
        checkQuery_int32 (checkQuery_request req) = Some (parseInt s))
   \<and> (req_query req ''int64'' = Some (QString s) \<longrightarrow>
        checkQuery_int64 (checkQuery_request req) = Some (parseInt s))
   \<and> (req_query req ''decimal'' = Some (QString s) \<longrightarrow>
        checkQuery_decimal (checkQuery_request req) = Some (parseFloat s))
   \<and> (req_query req ''enum'' = Some (QString s) \<longrightarrow>
        checkQuery_enum (checkQuery_request req) = Some s)
   \<and> (req_query req ''datetime'' = Some (QString s) \<longrightarrow>
        checkQuery_datetime (checkQuery_request req) = Some s)
   \<and> (req_query req' ''q'' = None \<longrightarrow> getWidgets_query (getWidgets_request req') = None)
   \<and> (req_query req' ''string'' = None \<longrightarrow>
        checkQuery_string (checkQuery_request req') = None)
   \<and> (req_query req' ''boolean'' = None \<longrightarrow>
        checkQuery_boolean (checkQuery_request req') = None)
   \<and> (req_query req' ''double'' = None \<longrightarrow>
        checkQuery_double (checkQuery_request req') = None)
   \<and> (req_query req' ''int32'' = None \<longrightarrow>
        checkQuery_int32 (checkQuery_request req') = None)
   \<and> (req_query req' ''int64'' = None \<longrightarrow>
        checkQuery_int64 (checkQuery_request req') = None)
   \<and> (req_query req' ''decimal'' = None \<longrightarrow>
        checkQuery_decimal (checkQuery_request req') = None)
   \<and> (req_query req' ''enum'' = None \<longrightarrow>
        checkQuery_enum (checkQuery_request req') = None)
   \<and> (req_query req' ''datetime'' = None \<longrightarrow>
        checkQuery_datetime (checkQuery_request req') = None)"
  by (simp add: getWidgets_request_def checkQuery_request_def query_string_def)

text \<open>
  The amended C8 at a request whose nine parameters are all the empty string, and at
  a request with no parameter.
\<close>

theorem C8_query_binding_witness:
  "(let req = \<lparr>req_query =
                  [''q'' \<mapsto> QString [], ''string'' \<mapsto> QString [], ''boolean'' \<mapsto> QString [],
                   ''double'' \<mapsto> QString [], ''int32'' \<mapsto> QString [], ''int64'' \<mapsto> QString [],
                   ''decimal'' \<mapsto> QString [], ''enum'' \<mapsto> QString [],
                   ''datetime'' \<mapsto> QString []],
                req_params = Map.empty, req_headers = Map.empty, req_body = ()\<rparr>;
        req' = \<lparr>req_query = Map.empty, req_params = Map.empty, req_headers = Map.empty,
                 req_body = ()\<rparr>
    in getWidgets_query (getWidgets_request req) = Some [] \<and>
       checkQuery_string (checkQuery_request req) = Some [] \<and>
       checkQuery_boolean (checkQuery_request req) = None \<and>
       checkQuery_double (checkQuery_request req) = Some NaN \<and>
       checkQuery_int32 (checkQuery_request req) = Some NaN \<and>
       checkQuery_int64 (checkQuery_request req) = Some NaN \<and>
       checkQuery_decimal (checkQuery_request req) = Some NaN \<and>
       checkQuery_enum (checkQuery_request req) = Some [] \<and>
       checkQuery_datetime (checkQuery_request req) = Some [] \<and>
       getWidgets_query (getWidgets_request req') = None \<and>
       checkQuery_string (checkQuery_request req') = None \<and>
       checkQuery_boolean (checkQuery_request req') = None \<and>
       checkQuery_double (checkQuery_request req') = None \<and>
       checkQuery_int32 (checkQuery_request req') = None \<and>
       checkQuery_int64 (checkQuery_request req') = None \<and>
       checkQuery_decimal (checkQuery_request req') = None \<and>
       checkQuery_enum (checkQuery_request req') = None \<and>
       checkQuery_datetime (checkQuery_request req') = None)"
proof -
  have i: "parseInt [] = NaN" by (simp add: parse_defs)
  have f: "parseFloat [] = NaN" by (simp add: parse_defs)
  have b: "parseBoolean (Some []) = None" by (simp add: parseBoolean_def toLowerCase_def)
  show ?thesis
    using i f b
      C8_query_binding [of
        "\<lparr>req_query =
                  [''q'' \<mapsto> QString [], ''string'' \<mapsto> QString [], ''boolean'' \<mapsto> QString [],
                   ''double'' \<mapsto> QString [], ''int32'' \<mapsto> QString [], ''int64'' \<mapsto> QString [],
                   ''decimal'' \<mapsto> QString [], ''enum'' \<mapsto> QString [],
                   ''datetime'' \<mapsto> QString []],
                req_params = Map.empty, req_headers = Map.empty, req_body = ()\<rparr>"
        "[]"
        "\<lparr>req_query = Map.empty, req_params = Map.empty, req_headers = Map.empty,
                 req_body = ()\<rparr>"]
    by (simp add: Let_def)
qed

text \<open>
  C9. For each of the eight kinds, when the path segment and the query parameter of
  the same name hold the same raw string, the \<^verbatim>\<open>GET /checkPath\<close> binder and the
  \<^verbatim>\<open>GET /checkQuery\<close> binder produce equal typed field values.
\<close>

theorem C9_path_and_query_coerce_alike:
  assumes "\<forall>n \<in> set checkNames. query_string q n = req_params p n"
  shows "checkPath_string (checkPath_request p) = checkQuery_string (checkQuery_request q)
       \<and> checkPath_boolean (checkPath_request p) = checkQuery_boolean (checkQuery_request q)
       \<and> checkPath_double (checkPath_request p) = checkQuery_double (checkQuery_request q)
       \<and> checkPath_int32 (checkPath_request p) = checkQuery_int32 (checkQuery_request q)
       \<and> checkPath_int64 (checkPath_request p) = checkQuery_int64 (checkQuery_request q)
       \<and> checkPath_decimal (checkPath_request p) = checkQuery_decimal (checkQuery_request q)
       \<and> checkPath_enum (checkPath_request p) = checkQuery_enum (checkQuery_request q)
       \<and> checkPath_datetime (checkPath_request p) = checkQuery_datetime (checkQuery_request q)"
  using assms by (simp add: checkNames_def checkPath_request_def checkQuery_request_def)

text \<open>C9 at one raw string per kind.\<close>

theorem C9_path_and_query_coerce_alike_witness:
  "(let p = \<lparr>req_query = Map.empty,
              req_params =
                [''string'' \<mapsto> ''hello'', ''boolean'' \<mapsto> ''TRUE'', ''double'' \<mapsto> ''1.5'',
                 ''int32'' \<mapsto> ''42'', ''int64'' \<mapsto> ''-7'', ''decimal'' \<mapsto> ''2.25'',
                 ''enum'' \<mapsto> ''maybe'', ''datetime'' \<mapsto> ''2020-01-01T00:00:00Z''],
              req_headers = Map.empty, req_body = ()\<rparr>;
        q = \<lparr>req_query =
                [''string'' \<mapsto> QString ''hello'', ''boolean'' \<mapsto> QString ''TRUE'',
                 ''double'' \<mapsto> QString ''1.5'', ''int32'' \<mapsto> QString ''42'',
                 ''int64'' \<mapsto> QString ''-7'', ''decimal'' \<mapsto> QString ''2.25'',
                 ''enum'' \<mapsto> QString ''maybe'',
                 ''datetime'' \<mapsto> QString ''2020-01-01T00:00:00Z''],
              req_params = Map.empty, req_headers = Map.empty, req_body = ()\<rparr>
    in checkPath_string (checkPath_request p) = checkQuery_string (checkQuery_request q)
       \<and> checkPath_boolean (checkPath_request p) = checkQuery_boolean (checkQuery_request q)
       \<and> checkPath_double (checkPath_request p) = checkQuery_double (checkQuery_request q)
       \<and> checkPath_int32 (checkPath_request p) = checkQuery_int32 (checkQuery_request q)
       \<and> checkPath_int64 (checkPath_request p) = checkQuery_int64 (checkQuery_request q)
       \<and> checkPath_decimal (checkPath_request p) = checkQuery_decimal (checkQuery_request q)
       \<and> checkPath_enum (checkPath_request p) = checkQuery_enum (checkQuery_request q)
       \<and> checkPath_datetime (checkPath_request p) = checkQuery_datetime (checkQuery_request q))"
proof -
  let ?p = "\<lparr>req_query = Map.empty,
              req_params =
                [''string'' \<mapsto> ''hello'', ''boolean'' \<mapsto> ''TRUE'', ''double'' \<mapsto> ''1.5'',
                 ''int32'' \<mapsto> ''42'', ''int64'' \<mapsto> ''-7'', ''decimal'' \<mapsto> ''2.25'',
                 ''enum'' \<mapsto> ''maybe'', ''datetime'' \<mapsto> ''2020-01-01T00:00:00Z''],
              req_headers = Map.empty, req_body = ()\<rparr>"
  let ?q = "\<lparr>req_query =
                [''string'' \<mapsto> QString ''hello'', ''boolean'' \<mapsto> QString ''TRUE'',
                 ''double'' \<mapsto> QString ''1.5'', ''int32'' \<mapsto> QString ''42'',
                 ''int64'' \<mapsto> QString ''-7'', ''decimal'' \<mapsto> QString ''2.25'',
                 ''enum'' \<mapsto> QString ''maybe'',
                 ''datetime'' \<mapsto> QString ''2020-01-01T00:00:00Z''],
              req_params = Map.empty, req_headers = Map.empty, req_body = ()\<rparr>"
  have h: "\<forall>n \<in> set checkNames. query_string ?q n = req_params ?p n"
    by (simp add: checkNames_def query_string_def)
  show ?thesis
    using C9_path_and_query_coerce_alike [OF h] by (simp add: Let_def)
qed

text \<open>
  C10. Claimed: the int32 and int64 fields come from the same base-10 prefix parse,
  with no range check. The binders call \<^verbatim>\<open>parseInt\<close> with no radix, which reads a string
  that starts with \<^verbatim>\<open>0x\<close> in base 16: \<^verbatim>\<open>0x10\<close> is bound to 16, where a base-10 prefix
  parse stops after the \<^verbatim>\<open>0\<close>.
\<close>

theorem C10_hex_prefix_counterexample:
  "checkQuery_int32 (checkQuery_request
     \<lparr>req_query = [''int32'' \<mapsto> QString ''0x10''], req_params = Map.empty,
      req_headers = Map.empty, req_body = ()\<rparr>) = Some (Num 16)
   \<and> base10_prefix_parse ''0x10'' = Num 0"
  by (simp add: checkQuery_request_def query_string_def base10_prefix_parse_def
      startsWithDigit_def toNumber_def parse_defs)

text \<open>
  C10, as amended. The int32 and int64 fields are produced by the same function, in
  the query binder and in the path binder: \<^verbatim>\<open>parseInt\<close> with no radix. It is the
  base-10 prefix parse on every string that does not start, after white space and
  sign, with \<^verbatim>\<open>0x\<close> or \<^verbatim>\<open>0X\<close>; after \<^verbatim>\<open>0x\<close> it reads hexadecimal digits. No 32-bit
  range check is applied: a string of decimal digits is bound to the double for its
  decimal value, which is that value itself whenever it is at most \<open>2 ^ 53\<close>.
\<close>

theorem C10_int32_int64_same_parse:
  "(req_query req ''int32'' = Some (QString s) \<longrightarrow>
      checkQuery_int32 (checkQuery_request req) = Some (parseInt s))
   \<and> (req_query req ''int64'' = Some (QString s) \<longrightarrow>
        checkQuery_int64 (checkQuery_request req) = Some (parseInt s))
   \<and> (req_params req ''int32'' = Some s \<longrightarrow>
        checkPath_int32 (checkPath_request req) = Some (parseInt s))
   \<and> (req_params req ''int64'' = Some s \<longrightarrow>
        checkPath_int64 (checkPath_request req) = Some (parseInt s))
   \<and> (\<not> hexPrefixed (snd (splitSign (trimStart s))) \<longrightarrow> parseInt s = base10_prefix_parse s)
   \<and> (hs \<noteq> [] \<and> list_all (radixDigit 16) hs \<longrightarrow>
        parseInt (''0x'' @ hs) = toNumber (mathInt 16 hs) 1)
   \<and> (ds \<noteq> [] \<and> list_all isDecimalDigit ds \<longrightarrow>
        parseInt ds = toNumber (mathInt 10 ds) 1)
   \<and> (ds \<noteq> [] \<and> list_all isDecimalDigit ds \<and> mathInt 10 ds \<le> 2 ^ 53 \<longrightarrow>
        parseInt ds = Num (of_int (mathInt 10 ds)))"
proof -
  have q32: "req_query req ''int32'' = Some (QString s) \<longrightarrow>
      checkQuery_int32 (checkQuery_request req) = Some (parseInt s)"
    by (simp add: checkQuery_request_def query_string_def)
  have q64: "req_query req ''int64'' = Some (QString s) \<longrightarrow>
      checkQuery_int64 (checkQuery_request req) = Some (parseInt s)"
    by (simp add: checkQuery_request_def query_string_def)
  have p32: "req_params req ''int32'' = Some s \<longrightarrow>
      checkPath_int32 (checkPath_request req) = Some (parseInt s)"
    by (simp add: checkPath_request_def)
  have p64: "req_params req ''int64'' = Some s \<longrightarrow>
      checkPath_int64 (checkPath_request req) = Some (parseInt s)"
    by (simp add: checkPath_request_def)
  have dec: "\<not> hexPrefixed (snd (splitSign (trimStart s))) \<longrightarrow>
      parseInt s = base10_prefix_parse s"
    using parseInt_without_hex_prefix by blast
  have hex: "hs \<noteq> [] \<and> list_all (radixDigit 16) hs \<longrightarrow>
      parseInt (''0x'' @ hs) = toNumber (mathInt 16 hs) 1"
    using parseInt_hex_digits by blast
  have digits: "ds \<noteq> [] \<and> list_all isDecimalDigit ds \<longrightarrow>
      parseInt ds = toNumber (mathInt 10 ds) 1"
    using parseInt_decimal_digits by blast
  have exact: "ds \<noteq> [] \<and> list_all isDecimalDigit ds \<and> mathInt 10 ds \<le> 2 ^ 53 \<longrightarrow>
      parseInt ds = Num (of_int (mathInt 10 ds))"
  proof (intro impI)
    assume a: "ds \<noteq> [] \<and> list_all isDecimalDigit ds \<and> mathInt 10 ds \<le> 2 ^ 53"
    then have "\<bar>mathInt 10 ds\<bar> \<le> 2 ^ 53"
      using mathInt_nonneg [of 10 ds] by simp
    then have "toNumber (mathInt 10 ds) 1 = Num (of_int (mathInt 10 ds))"
      by (rule toNumber_exact)
    then show "parseInt ds = Num (of_int (mathInt 10 ds))"
      using a parseInt_decimal_digits [of ds] by simp
  qed
  from q32 q64 p32 p64 dec hex digits exact show ?thesis
    by (intro conjI)
qed

text \<open>
  The amended C10 at \<open>2 ^ 32\<close>, outside the 32-bit range, and at the hexadecimal
  digits \<^verbatim>\<open>10\<close>.
\<close>

theorem C10_int32_int64_same_parse_witness:
  "(let req = \<lparr>req_query = [''int32'' \<mapsto> QString ''4294967296'',
                             ''int64'' \<mapsto> QString ''4294967296''],
                req_params = [''int32'' \<mapsto> ''4294967296'', ''int64'' \<mapsto> ''4294967296''],
                req_headers = Map.empty, req_body = ()\<rparr>
    in checkQuery_int32 (checkQuery_request req) = Some (Num 4294967296) \<and>
       checkQuery_int64 (checkQuery_request req) = Some (Num 4294967296) \<and>
       checkPath_int32 (checkPath_request req) = Some (Num 4294967296) \<and>
       checkPath_int64 (checkPath_request req) = Some (Num 4294967296) \<and>
       base10_prefix_parse ''4294967296'' = Num 4294967296 \<and>
       parseInt ''0x10'' = Num 16)"
proof -
  have m: "mathInt 10 ''4294967296'' = 4294967296"
    by (simp add: mathInt_def digitValue_def)
  have h: "mathInt 16 ''10'' = 16"
    by (simp add: mathInt_def digitValue_def)
  have t: "toNumber 16 1 = Num 16"
    by (simp add: toNumber_def)
  show ?thesis
    using m h t
      C10_int32_int64_same_parse [of
        "\<lparr>req_query = [''int32'' \<mapsto> QString ''4294967296'',
                             ''int64'' \<mapsto> QString ''4294967296''],
                req_params = [''int32'' \<mapsto> ''4294967296'', ''int64'' \<mapsto> ''4294967296''],
                req_headers = Map.empty, req_body = ()\<rparr>"
        "''4294967296''" "''10''" "''4294967296''"]
    by (auto simp add: Let_def isDecimalDigit_iff trimStart_def isWhiteSpace_def splitSign_def
        hexPrefixed_def radixDigit_def digitValue_def)
qed

end
